theory Spec2Isabelle
  imports Main "HOL-Library.AList"
begin

section \<open>Python values and the host services\<close>

text \<open>
  The contracts raise \<^verbatim>\<open>Exception(message)\<close>; indexing a dictionary at a missing key
  raises \<^verbatim>\<open>KeyError\<close>, reading an attribute that was never set \<^verbatim>\<open>AttributeError\<close>. A call returns its outcome together with the state the contract
  is left in, so a call that raises after it has written part of its state shows that
  state.
\<close>

datatype exn = Exception string | KeyError | AttributeError

datatype 'a result = Return 'a | Raise exn

text \<open>
  The host's \<^verbatim>\<open>self.event(name, *args)\<close> appends a record to the log of the contract;
  \<^verbatim>\<open>self.msg_sender()\<close> is the first argument \<open>sender\<close> of every operation that reads it;
  \<^verbatim>\<open>self.state_var(key, default)\<close> of a fresh contract is the default.
\<close>

datatype arg = AStr string | ANum int | ABool bool

type_synonym event = "string \<times> arg list"

abbreviation ZERO_ADDRESS :: string where
  "ZERO_ADDRESS \<equiv> ''0x0000000000000000000000000000000000000000''"

text \<open>
  A Python dictionary is an association list in insertion order with one entry per key:
  \<^verbatim>\<open>d[k] = v\<close> is \<^const>\<open>AList.update\<close> (in place, or appended), \<^verbatim>\<open>del d[k]\<close> is
  \<^const>\<open>AList.delete\<close>, \<^verbatim>\<open>k in d\<close> is \<open>map_of d k \<noteq> None\<close>, and \<^verbatim>\<open>d.get(k, dflt)\<close> is
  \<open>dict_get\<close>.
\<close>

definition dict_get :: "('k \<times> 'v) list \<Rightarrow> 'k \<Rightarrow> 'v \<Rightarrow> 'v" where
  "dict_get d k dflt = (case map_of d k of None \<Rightarrow> dflt | Some v \<Rightarrow> v)"

text \<open>The state left by a call that returned; nothing for a call that raised.\<close>

fun returned :: "'a result \<times> 's \<Rightarrow> 's option" where
  "returned (Return v, s) = Some s"
| "returned (Raise e, s) = None"

section \<open>Token (base/Token.py)\<close>

record Token =
  name :: string
  symbol :: string
  decimals :: int
  token_total_supply :: int
  token_balances :: "(string \<times> int) list"
  token_allowances :: "(string \<times> (string \<times> int) list) list"
  token_log :: "event list"

definition Token_init :: "string \<Rightarrow> string \<Rightarrow> int \<Rightarrow> Token" where
  "Token_init nm sy dec =
     \<lparr>name = nm, symbol = sy, decimals = dec, token_total_supply = 0,
      token_balances = [], token_allowances = [], token_log = []\<rparr>"

definition Token_event :: "string \<Rightarrow> arg list \<Rightarrow> Token \<Rightarrow> Token" where
  "Token_event nm args s = s\<lparr>token_log := token_log s @ [(nm, args)]\<rparr>"

definition Token_balance_of :: "Token \<Rightarrow> string \<Rightarrow> int" where
  "Token_balance_of s account = dict_get (token_balances s) account 0"

definition Token_transfer :: "string \<Rightarrow> string \<Rightarrow> int \<Rightarrow> Token \<Rightarrow> bool result \<times> Token" where
  "Token_transfer sender to amount s =
     (if to = ZERO_ADDRESS then (Raise (Exception ''Token: transfer to zero address''), s)
      else if amount \<le> 0 then (Raise (Exception ''Token: amount must be positive''), s)
      else
        let sender_balance = dict_get (token_balances s) sender 0 in
        if sender_balance < amount then (Raise (Exception ''Token: insufficient balance''), s)
        else
          let s1 = s\<lparr>token_balances :=
                      AList.update sender (sender_balance - amount) (token_balances s)\<rparr>;
              s2 = s1\<lparr>token_balances :=
                      AList.update to (dict_get (token_balances s1) to 0 + amount)
                        (token_balances s1)\<rparr>
          in (Return True, Token_event ''Transfer'' [AStr sender, AStr to, ANum amount] s2))"

definition Token_approve :: "string \<Rightarrow> string \<Rightarrow> int \<Rightarrow> Token \<Rightarrow> bool result \<times> Token" where
  "Token_approve sender spender amount s =
     (if spender = ZERO_ADDRESS then (Raise (Exception ''Token: approve to zero address''), s)
      else
        let s1 = (if map_of (token_allowances s) sender = None
                  then s\<lparr>token_allowances := AList.update sender [] (token_allowances s)\<rparr>
                  else s);
            s2 = s1\<lparr>token_allowances :=
                      AList.update sender
                        (AList.update spender amount (dict_get (token_allowances s1) sender []))
                        (token_allowances s1)\<rparr>
        in (Return True, Token_event ''Approval'' [AStr sender, AStr spender, ANum amount] s2))"

definition Token_allowance :: "Token \<Rightarrow> string \<Rightarrow> string \<Rightarrow> int" where
  "Token_allowance s owner spender =
     (case map_of (token_allowances s) owner of
        None \<Rightarrow> 0
      | Some inner \<Rightarrow> dict_get inner spender 0)"

text \<open>
  \<^verbatim>\<open>self.allowances[from_addr][sender] = ...\<close> reads \<^verbatim>\<open>self.allowances[from_addr]\<close> first
  and raises \<^verbatim>\<open>KeyError\<close> when \<open>from_addr\<close> has no entry; the two balances are written
  by then.
\<close>

definition Token_transfer_from ::
  "string \<Rightarrow> string \<Rightarrow> string \<Rightarrow> int \<Rightarrow> Token \<Rightarrow> bool result \<times> Token" where
  "Token_transfer_from sender from_addr to amount s =
     (if to = ZERO_ADDRESS then (Raise (Exception ''Token: transfer to zero address''), s)
      else
        let current_allowance = Token_allowance s from_addr sender in
        if current_allowance < amount
        then (Raise (Exception ''Token: insufficient allowance''), s)
        else
          let from_balance = dict_get (token_balances s) from_addr 0 in
          if from_balance < amount then (Raise (Exception ''Token: insufficient balance''), s)
          else
            let s1 = s\<lparr>token_balances :=
                        AList.update from_addr (from_balance - amount) (token_balances s)\<rparr>;
                s2 = s1\<lparr>token_balances :=
                        AList.update to (dict_get (token_balances s1) to 0 + amount)
                          (token_balances s1)\<rparr>
            in case map_of (token_allowances s2) from_addr of
                 None \<Rightarrow> (Raise KeyError, s2)
               | Some inner \<Rightarrow>
                   let s3 = s2\<lparr>token_allowances :=
                              AList.update from_addr
                                (AList.update sender (current_allowance - amount) inner)
                                (token_allowances s2)\<rparr>
                   in (Return True,
                       Token_event ''Transfer'' [AStr from_addr, AStr to, ANum amount] s3))"

definition Token_mint :: "string \<Rightarrow> int \<Rightarrow> Token \<Rightarrow> unit result \<times> Token" where
  "Token_mint account amount s =
     (if account = ZERO_ADDRESS then (Raise (Exception ''Token: mint to zero address''), s)
      else if amount \<le> 0 then (Raise (Exception ''Token: mint amount must be positive''), s)
      else
        let s1 = s\<lparr>token_total_supply := token_total_supply s + amount\<rparr>;
            s2 = s1\<lparr>token_balances :=
                    AList.update account (dict_get (token_balances s1) account 0 + amount)
                      (token_balances s1)\<rparr>
        in (Return (),
            Token_event ''Transfer'' [AStr ZERO_ADDRESS, AStr account, ANum amount] s2))"

definition Token_burn :: "string \<Rightarrow> int \<Rightarrow> Token \<Rightarrow> unit result \<times> Token" where
  "Token_burn account amount s =
     (let account_balance = dict_get (token_balances s) account 0 in
      if account_balance < amount
      then (Raise (Exception ''Token: burn amount exceeds balance''), s)
      else
        let s1 = s\<lparr>token_balances :=
                    AList.update account (account_balance - amount) (token_balances s)\<rparr>;
            s2 = s1\<lparr>token_total_supply := token_total_supply s1 - amount\<rparr>
        in (Return (),
            Token_event ''Transfer'' [AStr account, AStr ZERO_ADDRESS, ANum amount] s2))"

text \<open>
  The calls a client can make on a Token, each with its caller where the operation
  reads \<^verbatim>\<open>msg_sender()\<close>, and a run of calls that all return.
\<close>

datatype token_call =
    Transfer string string int
  | Approve string string int
  | TransferFrom string string string int
  | Mint string int
  | Burn string int

fun token_step :: "token_call \<Rightarrow> Token \<Rightarrow> Token option" where
  "token_step (Transfer sender to amount) s = returned (Token_transfer sender to amount s)"
| "token_step (Approve sender spender amount) s = returned (Token_approve sender spender amount s)"
| "token_step (TransferFrom sender from_addr to amount) s =
     returned (Token_transfer_from sender from_addr to amount s)"
| "token_step (Mint account amount) s = returned (Token_mint account amount s)"
| "token_step (Burn account amount) s = returned (Token_burn account amount s)"

fun token_run :: "token_call list \<Rightarrow> Token \<Rightarrow> Token option" where
  "token_run [] s = Some s"
| "token_run (c # cs) s =
     (case token_step c s of None \<Rightarrow> None | Some s' \<Rightarrow> token_run cs s')"

text \<open>
  The state a call leaves, whether it returns or raises, and the amount it was given.
\<close>

fun token_after :: "token_call \<Rightarrow> Token \<Rightarrow> Token" where
  "token_after (Transfer sender to amount) s = snd (Token_transfer sender to amount s)"
| "token_after (Approve sender spender amount) s = snd (Token_approve sender spender amount s)"
| "token_after (TransferFrom sender from_addr to amount) s =
     snd (Token_transfer_from sender from_addr to amount s)"
| "token_after (Mint account amount) s = snd (Token_mint account amount s)"
| "token_after (Burn account amount) s = snd (Token_burn account amount s)"

fun token_after_all :: "token_call list \<Rightarrow> Token \<Rightarrow> Token" where
  "token_after_all [] s = s"
| "token_after_all (c # cs) s = token_after_all cs (token_after c s)"

fun amount_of :: "token_call \<Rightarrow> int" where
  "amount_of (Transfer sender to amount) = amount"
| "amount_of (Approve sender spender amount) = amount"
| "amount_of (TransferFrom sender from_addr to amount) = amount"
| "amount_of (Mint account amount) = amount"
| "amount_of (Burn account amount) = amount"

text \<open>
  The Token \<^verbatim>\<open>Token("X", "X", 18)\<close> after \<^verbatim>\<open>_mint("A", m)\<close>, and after
  \<^verbatim>\<open>approve("B", n)\<close> called by \<open>A\<close> then.
\<close>

abbreviation minted :: "int \<Rightarrow> Token" where
  "minted m \<equiv>
     \<lparr>name = ''X'', symbol = ''X'', decimals = 18, token_total_supply = m,
      token_balances = [(''A'', m)], token_allowances = [],
      token_log = [(''Transfer'', [AStr ZERO_ADDRESS, AStr ''A'', ANum m])]\<rparr>"

abbreviation funded :: "int \<Rightarrow> int \<Rightarrow> Token" where
  "funded m n \<equiv>
     \<lparr>name = ''X'', symbol = ''X'', decimals = 18, token_total_supply = m,
      token_balances = [(''A'', m)], token_allowances = [(''A'', [(''B'', n)])],
      token_log = [(''Transfer'', [AStr ZERO_ADDRESS, AStr ''A'', ANum m]),
                   (''Approval'', [AStr ''A'', AStr ''B'', ANum n])]\<rparr>"

section \<open>Burnable on a Token (mixins/Burnable.py)\<close>

text \<open>
  Mixed into a Token, \<^verbatim>\<open>hasattr(self, '_burn')\<close>, \<^verbatim>\<open>hasattr(self, 'allowance')\<close> and
  \<^verbatim>\<open>hasattr(self, 'allowances')\<close> hold and \<^verbatim>\<open>hasattr(self, 'owner_of')\<close> does not, so
  \<^verbatim>\<open>burn\<close> and \<^verbatim>\<open>burn_from\<close> take their Token branch.
\<close>

definition Burnable_burn :: "string \<Rightarrow> int \<Rightarrow> Token \<Rightarrow> unit result \<times> Token" where
  "Burnable_burn sender amount s = Token_burn sender amount s"

definition Burnable_burn_from :: "string \<Rightarrow> string \<Rightarrow> int \<Rightarrow> Token \<Rightarrow> unit result \<times> Token" where
  "Burnable_burn_from sender account amount s =
     (let current_allowance = Token_allowance s account sender in
      if current_allowance < amount
      then (Raise (Exception ''Burnable: burn amount exceeds allowance''), s)
      else
        case map_of (token_allowances s) account of
          None \<Rightarrow> (Raise KeyError, s)
        | Some inner \<Rightarrow>
            let s1 = s\<lparr>token_allowances :=
                       AList.update account
                         (AList.update sender (current_allowance - amount) inner)
                         (token_allowances s)\<rparr>
            in Token_burn account amount s1)"

section \<open>NFT (base/NFT.py)\<close>

record NFT =
  nft_name :: string
  nft_symbol :: string
  nft_owners :: "(int \<times> string) list"
  nft_balances :: "(string \<times> int) list"
  nft_token_approvals :: "(int \<times> string) list"
  nft_operator_approvals :: "(string \<times> (string \<times> bool) list) list"
  nft_next_token_id :: int
  nft_log :: "event list"

definition NFT_init :: "string \<Rightarrow> string \<Rightarrow> NFT" where
  "NFT_init nm sy =
     \<lparr>nft_name = nm, nft_symbol = sy, nft_owners = [], nft_balances = [],
      nft_token_approvals = [], nft_operator_approvals = [], nft_next_token_id = 1,
      nft_log = []\<rparr>"

definition NFT_event :: "string \<Rightarrow> arg list \<Rightarrow> NFT \<Rightarrow> NFT" where
  "NFT_event nm args s = s\<lparr>nft_log := nft_log s @ [(nm, args)]\<rparr>"

definition NFT_balance_of :: "NFT \<Rightarrow> string \<Rightarrow> int result" where
  "NFT_balance_of s owner =
     (if owner = ZERO_ADDRESS then Raise (Exception ''NFT: balance query for zero address'')
      else Return (dict_get (nft_balances s) owner 0))"

text \<open>
  \<^verbatim>\<open>if not owner\<close> holds for \<^verbatim>\<open>None\<close> (no entry) and for the empty string.
\<close>

definition NFT_owner_of :: "NFT \<Rightarrow> int \<Rightarrow> string result" where
  "NFT_owner_of s token_id =
     (case map_of (nft_owners s) token_id of
        None \<Rightarrow> Raise (Exception ''NFT: owner query for nonexistent token'')
      | Some owner \<Rightarrow>
          if owner = '''' then Raise (Exception ''NFT: owner query for nonexistent token'')
          else Return owner)"

definition NFT_get_approved :: "NFT \<Rightarrow> int \<Rightarrow> string result" where
  "NFT_get_approved s token_id =
     (if map_of (nft_owners s) token_id = None
      then Raise (Exception ''NFT: approved query for nonexistent token'')
      else Return (dict_get (nft_token_approvals s) token_id ''''))"

definition NFT_is_approved_for_all :: "NFT \<Rightarrow> string \<Rightarrow> string \<Rightarrow> bool" where
  "NFT_is_approved_for_all s owner operator =
     (case map_of (nft_operator_approvals s) owner of
        None \<Rightarrow> False
      | Some inner \<Rightarrow> dict_get inner operator False)"

text \<open>
  Python's \<^verbatim>\<open>or\<close> evaluates \<^verbatim>\<open>self.get_approved(token_id)\<close> only when the spender is
  not the owner.
\<close>

definition NFT_is_approved_or_owner :: "NFT \<Rightarrow> string \<Rightarrow> int \<Rightarrow> bool result" where
  "NFT_is_approved_or_owner s spender token_id =
     (case map_of (nft_owners s) token_id of
        None \<Rightarrow> Return False
      | Some owner \<Rightarrow>
          if owner = '''' then Return False
          else if spender = owner then Return True
          else
            (case NFT_get_approved s token_id of
               Raise e \<Rightarrow> Raise e
             | Return approved \<Rightarrow>
                 Return (approved = spender \<or> NFT_is_approved_for_all s owner spender)))"

definition NFT_transfer_from ::
  "string \<Rightarrow> string \<Rightarrow> string \<Rightarrow> int \<Rightarrow> NFT \<Rightarrow> unit result \<times> NFT" where
  "NFT_transfer_from sender from_addr to token_id s =
     (case NFT_is_approved_or_owner s sender token_id of
        Raise e \<Rightarrow> (Raise e, s)
      | Return ok \<Rightarrow>
          if \<not> ok
          then (Raise (Exception ''NFT: transfer caller is not owner nor approved''), s)
          else if to = ZERO_ADDRESS
          then (Raise (Exception ''NFT: transfer to zero address''), s)
          else if map_of (nft_owners s) token_id \<noteq> Some from_addr
          then (Raise (Exception ''NFT: transfer from incorrect owner''), s)
          else
            let s1 = (if map_of (nft_token_approvals s) token_id \<noteq> None
                      then s\<lparr>nft_token_approvals :=
                               AList.delete token_id (nft_token_approvals s)\<rparr>
                      else s)
            in (case map_of (nft_balances s1) from_addr of
                 None \<Rightarrow> (Raise KeyError, s1)
               | Some from_balance \<Rightarrow>
                   let s2 = s1\<lparr>nft_balances :=
                              AList.update from_addr (from_balance - 1) (nft_balances s1)\<rparr>;
                       s3 = s2\<lparr>nft_balances :=
                              AList.update to (dict_get (nft_balances s2) to 0 + 1)
                                (nft_balances s2)\<rparr>;
                       s4 = s3\<lparr>nft_owners := AList.update token_id to (nft_owners s3)\<rparr>
                   in (Return (),
                       NFT_event ''Transfer'' [AStr from_addr, AStr to, ANum token_id] s4)))"

definition NFT_safe_transfer_from ::
  "string \<Rightarrow> string \<Rightarrow> string \<Rightarrow> int \<Rightarrow> NFT \<Rightarrow> unit result \<times> NFT" where
  "NFT_safe_transfer_from sender from_addr to token_id s =
     (case NFT_transfer_from sender from_addr to token_id s of
        (Raise e, s') \<Rightarrow> (Raise e, s')
      | (Return u, s') \<Rightarrow> (Return (), s'))"

definition NFT_approve :: "string \<Rightarrow> string \<Rightarrow> int \<Rightarrow> NFT \<Rightarrow> unit result \<times> NFT" where
  "NFT_approve sender to token_id s =
     (case NFT_owner_of s token_id of
        Raise e \<Rightarrow> (Raise e, s)
      | Return owner \<Rightarrow>
          if to = owner then (Raise (Exception ''NFT: approval to current owner''), s)
          else if sender \<noteq> owner \<and> \<not> NFT_is_approved_for_all s owner sender
          then (Raise (Exception ''NFT: approve caller is not owner nor approved for all''), s)
          else
            let s1 = s\<lparr>nft_token_approvals :=
                       AList.update token_id to (nft_token_approvals s)\<rparr>
            in (Return (), NFT_event ''Approval'' [AStr owner, AStr to, ANum token_id] s1))"

definition NFT_set_approval_for_all ::
  "string \<Rightarrow> string \<Rightarrow> bool \<Rightarrow> NFT \<Rightarrow> unit result \<times> NFT" where
  "NFT_set_approval_for_all sender operator approved s =
     (if operator = sender then (Raise (Exception ''NFT: approve to caller''), s)
      else
        let s1 = (if map_of (nft_operator_approvals s) sender = None
                  then s\<lparr>nft_operator_approvals :=
                           AList.update sender [] (nft_operator_approvals s)\<rparr>
                  else s);
            s2 = s1\<lparr>nft_operator_approvals :=
                      AList.update sender
                        (AList.update operator approved
                           (dict_get (nft_operator_approvals s1) sender []))
                        (nft_operator_approvals s1)\<rparr>
        in (Return (),
            NFT_event ''ApprovalForAll'' [AStr sender, AStr operator, ABool approved] s2))"

definition NFT_mint :: "string \<Rightarrow> int \<Rightarrow> NFT \<Rightarrow> unit result \<times> NFT" where
  "NFT_mint to token_id s =
     (if to = ZERO_ADDRESS then (Raise (Exception ''NFT: mint to zero address''), s)
      else if map_of (nft_owners s) token_id \<noteq> None
      then (Raise (Exception ''NFT: token already minted''), s)
      else
        let s1 = s\<lparr>nft_balances :=
                   AList.update to (dict_get (nft_balances s) to 0 + 1) (nft_balances s)\<rparr>;
            s2 = s1\<lparr>nft_owners := AList.update token_id to (nft_owners s1)\<rparr>
        in (Return (),
            NFT_event ''Transfer'' [AStr ZERO_ADDRESS, AStr to, ANum token_id] s2))"

definition NFT_burn :: "int \<Rightarrow> NFT \<Rightarrow> unit result \<times> NFT" where
  "NFT_burn token_id s =
     (case map_of (nft_owners s) token_id of
        None \<Rightarrow> (Raise (Exception ''NFT: burn of nonexistent token''), s)
      | Some owner \<Rightarrow>
          if owner = '''' then (Raise (Exception ''NFT: burn of nonexistent token''), s)
          else
            let s1 = (if map_of (nft_token_approvals s) token_id \<noteq> None
                      then s\<lparr>nft_token_approvals :=
                               AList.delete token_id (nft_token_approvals s)\<rparr>
                      else s)
            in (case map_of (nft_balances s1) owner of
                 None \<Rightarrow> (Raise KeyError, s1)
               | Some owner_balance \<Rightarrow>
                   let s2 = s1\<lparr>nft_balances :=
                              AList.update owner (owner_balance - 1) (nft_balances s1)\<rparr>;
                       s3 = s2\<lparr>nft_owners := AList.delete token_id (nft_owners s2)\<rparr>
                   in (Return (),
                       NFT_event ''Transfer''
                         [AStr owner, AStr ZERO_ADDRESS, ANum token_id] s3)))"

datatype nft_call =
    NMint string int
  | NBurn int
  | NTransferFrom string string string int
  | NApprove string string int
  | NSetApprovalForAll string string bool

fun nft_step :: "nft_call \<Rightarrow> NFT \<Rightarrow> NFT option" where
  "nft_step (NMint to token_id) s = returned (NFT_mint to token_id s)"
| "nft_step (NBurn token_id) s = returned (NFT_burn token_id s)"
| "nft_step (NTransferFrom sender from_addr to token_id) s =
     returned (NFT_transfer_from sender from_addr to token_id s)"
| "nft_step (NApprove sender to token_id) s = returned (NFT_approve sender to token_id s)"
| "nft_step (NSetApprovalForAll sender operator approved) s =
     returned (NFT_set_approval_for_all sender operator approved s)"

fun nft_run :: "nft_call list \<Rightarrow> NFT \<Rightarrow> NFT option" where
  "nft_run [] s = Some s"
| "nft_run (c # cs) s = (case nft_step c s of None \<Rightarrow> None | Some s' \<Rightarrow> nft_run cs s')"

text \<open>
  The NFT \<^verbatim>\<open>NFT("N", "N")\<close> after \<^verbatim>\<open>_mint("A", 1)\<close> and \<^verbatim>\<open>approve("B", 1)\<close> called by \<open>A\<close>;
  the same with \<^verbatim>\<open>set_approval_for_all("B", True)\<close> called by \<open>A\<close> before the approval;
  and the first after \<^verbatim>\<open>transfer_from("A", "C", 1)\<close> called by \<open>B\<close>.
\<close>

abbreviation delegated :: NFT where
  "delegated \<equiv>
     \<lparr>nft_name = ''N'', nft_symbol = ''N'', nft_owners = [(1, ''A'')],
      nft_balances = [(''A'', 1)], nft_token_approvals = [(1, ''B'')],
      nft_operator_approvals = [], nft_next_token_id = 1,
      nft_log = [(''Transfer'', [AStr ZERO_ADDRESS, AStr ''A'', ANum 1]),
                 (''Approval'', [AStr ''A'', AStr ''B'', ANum 1])]\<rparr>"

abbreviation delegated_operator :: NFT where
  "delegated_operator \<equiv>
     \<lparr>nft_name = ''N'', nft_symbol = ''N'', nft_owners = [(1, ''A'')],
      nft_balances = [(''A'', 1)], nft_token_approvals = [(1, ''B'')],
      nft_operator_approvals = [(''A'', [(''B'', True)])], nft_next_token_id = 1,
      nft_log = [(''Transfer'', [AStr ZERO_ADDRESS, AStr ''A'', ANum 1]),
                 (''ApprovalForAll'', [AStr ''A'', AStr ''B'', ABool True]),
                 (''Approval'', [AStr ''A'', AStr ''B'', ANum 1])]\<rparr>"

abbreviation handed_over :: NFT where
  "handed_over \<equiv>
     \<lparr>nft_name = ''N'', nft_symbol = ''N'', nft_owners = [(1, ''C'')],
      nft_balances = [(''A'', 0), (''C'', 1)], nft_token_approvals = [],
      nft_operator_approvals = [], nft_next_token_id = 1,
      nft_log = [(''Transfer'', [AStr ZERO_ADDRESS, AStr ''A'', ANum 1]),
                 (''Approval'', [AStr ''A'', AStr ''B'', ANum 1]),
                 (''Transfer'', [AStr ''A'', AStr ''C'', ANum 1])]\<rparr>"

section \<open>Ownable (mixins/Ownable.py)\<close>

record Ownable =
  ownable_owner :: string
  ownable_log :: "event list"

definition Ownable_event :: "string \<Rightarrow> arg list \<Rightarrow> Ownable \<Rightarrow> Ownable" where
  "Ownable_event nm args s = s\<lparr>ownable_log := ownable_log s @ [(nm, args)]\<rparr>"

definition Ownable_init_mixin :: "string \<Rightarrow> Ownable" where
  "Ownable_init_mixin sender =
     Ownable_event ''OwnershipTransferred'' [AStr ZERO_ADDRESS, AStr sender]
       \<lparr>ownable_owner = sender, ownable_log = []\<rparr>"

definition Ownable_only_owner :: "string \<Rightarrow> Ownable \<Rightarrow> unit result" where
  "Ownable_only_owner sender s =
     (if sender \<noteq> ownable_owner s then Raise (Exception ''Ownable: caller is not the owner'')
      else Return ())"

definition Ownable_get_owner :: "Ownable \<Rightarrow> string" where
  "Ownable_get_owner s = ownable_owner s"

definition Ownable_transfer_ownership :: "string \<Rightarrow> string \<Rightarrow> Ownable \<Rightarrow> unit result \<times> Ownable" where
  "Ownable_transfer_ownership sender new_owner s =
     (case Ownable_only_owner sender s of
        Raise e \<Rightarrow> (Raise e, s)
      | Return u \<Rightarrow>
          if new_owner = ZERO_ADDRESS
          then (Raise (Exception ''Ownable: new owner is zero address''), s)
          else
            let old_owner = ownable_owner s;
                s1 = s\<lparr>ownable_owner := new_owner\<rparr>
            in (Return (),
                Ownable_event ''OwnershipTransferred'' [AStr old_owner, AStr new_owner] s1))"

definition Ownable_renounce_ownership :: "string \<Rightarrow> Ownable \<Rightarrow> unit result \<times> Ownable" where
  "Ownable_renounce_ownership sender s =
     (case Ownable_only_owner sender s of
        Raise e \<Rightarrow> (Raise e, s)
      | Return u \<Rightarrow>
          let old_owner = ownable_owner s;
              s1 = s\<lparr>ownable_owner := ZERO_ADDRESS\<rparr>
          in (Return (),
              Ownable_event ''OwnershipTransferred'' [AStr old_owner, AStr ZERO_ADDRESS] s1))"

text \<open>
  The calls that touch the owner, each with its caller. \<open>OwnerGated\<close> is a function of
  the contract that starts with \<^verbatim>\<open>self.only_owner()\<close>, as far as its gate. A trace
  makes every call in turn, whether it raises or not, and keeps the outcomes.
\<close>

datatype ownable_call =
    TransferOwnership string string
  | RenounceOwnership string
  | OwnerGated string

fun caller_of :: "ownable_call \<Rightarrow> string" where
  "caller_of (TransferOwnership sender new_owner) = sender"
| "caller_of (RenounceOwnership sender) = sender"
| "caller_of (OwnerGated sender) = sender"

fun ownable_exec :: "ownable_call \<Rightarrow> Ownable \<Rightarrow> unit result \<times> Ownable" where
  "ownable_exec (TransferOwnership sender new_owner) s =
     Ownable_transfer_ownership sender new_owner s"
| "ownable_exec (RenounceOwnership sender) s = Ownable_renounce_ownership sender s"
| "ownable_exec (OwnerGated sender) s = (Ownable_only_owner sender s, s)"

fun ownable_trace :: "ownable_call list \<Rightarrow> Ownable \<Rightarrow> unit result list \<times> Ownable" where
  "ownable_trace [] s = ([], s)"
| "ownable_trace (c # cs) s =
     (case ownable_exec c s of
        (r, s1) \<Rightarrow> (case ownable_trace cs s1 of (rs, s2) \<Rightarrow> (r # rs, s2)))"

section \<open>ReentrancyGuard (mixins/ReentrancyGuard.py)\<close>

text \<open>
  The attribute \<^verbatim>\<open>_status\<close> exists once \<^verbatim>\<open>__init_mixin__\<close> has run; the rest of the
  contract's state is the extension of the record, which a protected body may change.
\<close>

record Guarded =
  reentrancy_status :: "int option"

definition NOT_ENTERED :: int where
  "NOT_ENTERED = 1"

definition ENTERED :: int where
  "ENTERED = 2"

definition ReentrancyGuard_init_mixin :: "'a Guarded_scheme \<Rightarrow> 'a Guarded_scheme" where
  "ReentrancyGuard_init_mixin s = s\<lparr>reentrancy_status := Some NOT_ENTERED\<rparr>"

definition nonreentrant :: "'a Guarded_scheme \<Rightarrow> unit result \<times> 'a Guarded_scheme" where
  "nonreentrant s =
     (case reentrancy_status s of
        None \<Rightarrow> (Raise AttributeError, s)
      | Some st \<Rightarrow>
          if st = ENTERED then (Raise (Exception ''ReentrancyGuard: reentrant call''), s)
          else (Return (), s\<lparr>reentrancy_status := Some ENTERED\<rparr>))"

definition reset_reentrancy_guard :: "'a Guarded_scheme \<Rightarrow> unit result \<times> 'a Guarded_scheme" where
  "reset_reentrancy_guard s = (Return (), s\<lparr>reentrancy_status := Some NOT_ENTERED\<rparr>)"

text \<open>
  The wrapper that \<^verbatim>\<open>nonreentrant_decorator(func)\<close> returns; \<open>func\<close> is the wrapped body
  with its arguments. The \<^verbatim>\<open>finally\<close> clause runs when the body returns and when it
  raises.
\<close>

definition nonreentrant_decorator ::
  "('a Guarded_scheme \<Rightarrow> 'r result \<times> 'a Guarded_scheme) \<Rightarrow>
   'a Guarded_scheme \<Rightarrow> 'r result \<times> 'a Guarded_scheme" where
  "nonreentrant_decorator func s =
     (case reentrancy_status s of
        None \<Rightarrow>
          (Raise (Exception ''ReentrancyGuard: contract must include ReentrancyGuard mixin''), s)
      | Some st \<Rightarrow>
          if st = ENTERED then (Raise (Exception ''ReentrancyGuard: reentrant call''), s)
          else
            (case func (s\<lparr>reentrancy_status := Some ENTERED\<rparr>) of
               (r, s2) \<Rightarrow> (r, s2\<lparr>reentrancy_status := Some NOT_ENTERED\<rparr>)))"

text \<open>Two bodies to wrap: one raises, one returns; neither touches the guard.\<close>

definition failing_body :: "Guarded \<Rightarrow> unit result \<times> Guarded" where
  "failing_body s = (Raise (Exception ''withdraw failed''), s)"

definition returning_body :: "Guarded \<Rightarrow> unit result \<times> Guarded" where
  "returning_body s = (Return (), s)"

section \<open>Invariants of the two ledgers\<close>

text \<open>The balances of a Token add up to its supply.\<close>

definition supply_inv :: "Token \<Rightarrow> bool" where
  "supply_inv s = (sum_list (map snd (token_balances s)) = token_total_supply s)"

text \<open>No entry of \<^verbatim>\<open>balances\<close> of a Token is negative.\<close>

definition nonneg_balances :: "Token \<Rightarrow> bool" where
  "nonneg_balances s = list_all (\<lambda>p. 0 \<le> snd p) (token_balances s)"

text \<open>
  \<open>owned os a\<close> counts the tokens that the dictionary \<open>os\<close> of owners gives to \<open>a\<close>.
  In an NFT the dictionary of owners has one entry per token, the counts in
  \<^verbatim>\<open>balances\<close> add up to the number of tokens, and \<^verbatim>\<open>balances.get(a, 0)\<close> is the number of
  tokens of \<open>a\<close>.
\<close>

definition owned :: "(int \<times> string) list \<Rightarrow> string \<Rightarrow> nat" where
  "owned os a = length (filter (\<lambda>p. snd p = a) os)"

definition nft_inv :: "NFT \<Rightarrow> bool" where
  "nft_inv s =
     (distinct (map fst (nft_owners s))
      \<and> sum_list (map snd (nft_balances s)) = int (length (nft_owners s))
      \<and> (\<forall>a. dict_get (nft_balances s) a 0 = int (owned (nft_owners s) a)))"

section \<open>Dictionary facts\<close>

lemma dict_get_update:
  "dict_get (AList.update k v d) k' dflt = (if k' = k then v else dict_get d k' dflt)"
  by (simp add: dict_get_def update_conv')

lemma sum_values_update:
  fixes d :: "('k \<times> int) list"
  shows "sum_list (map snd (AList.update k v d)) = sum_list (map snd d) - dict_get d k 0 + v"
  by (induction d) (auto simp: dict_get_def)

lemma update_absent: "map_of al k = None \<Longrightarrow> AList.update k v al = al @ [(k, v)]"
  by (induction al) (auto split: if_splits)

lemma length_update_absent: "map_of al k = None \<Longrightarrow> length (AList.update k v al) = Suc (length al)"
  by (simp add: update_absent)

lemma length_update_present: "map_of al k = Some w \<Longrightarrow> length (AList.update k v al) = length al"
  by (induction al) (auto split: if_splits)

lemma length_delete_present:
  "distinct (map fst al) \<Longrightarrow> map_of al k = Some w \<Longrightarrow> Suc (length (AList.delete k al)) = length al"
  by (induction al) (auto split: if_splits simp: delete_id map_of_eq_None_iff)

lemma owned_update_absent:
  "map_of os k = None \<Longrightarrow> owned (AList.update k v os) a = owned os a + (if a = v then 1 else 0)"
  by (simp add: update_absent owned_def)

lemma owned_delete:
  "distinct (map fst os) \<Longrightarrow> map_of os k = Some w \<Longrightarrow>
   int (owned (AList.delete k os) a) = int (owned os a) - (if a = w then 1 else 0)"
  by (induction os) (auto split: if_splits simp: owned_def delete_id map_of_eq_None_iff)

lemma owned_update_present:
  "distinct (map fst os) \<Longrightarrow> map_of os k = Some w \<Longrightarrow>
   int (owned (AList.update k v os) a) =
     int (owned os a) - (if a = w then 1 else 0) + (if a = v then 1 else 0)"
  by (induction os) (auto split: if_splits simp: owned_def)

lemma owned_pos: "map_of os k = Some w \<Longrightarrow> 0 < owned os w"
  by (induction os) (auto split: if_splits simp: owned_def)

lemma dict_get_Some: "map_of d k = Some v \<Longrightarrow> dict_get d k dflt = v"
  by (simp add: dict_get_def)

section \<open>Token: the supply invariant\<close>

lemma supply_inv_init: "supply_inv (Token_init nm sy dec)"
  by (simp add: supply_inv_def Token_init_def)

lemma supply_inv_transfer:
  "supply_inv s \<Longrightarrow> supply_inv (snd (Token_transfer sender to amount s))"
  by (simp add: supply_inv_def Token_transfer_def Token_event_def Let_def
      sum_values_update dict_get_update)

lemma supply_inv_approve:
  "supply_inv s \<Longrightarrow> supply_inv (snd (Token_approve sender spender amount s))"
  by (simp add: supply_inv_def Token_approve_def Token_event_def Let_def)

lemma supply_inv_transfer_from:
  "supply_inv s \<Longrightarrow> supply_inv (snd (Token_transfer_from sender from_addr to amount s))"
  by (simp add: supply_inv_def Token_transfer_from_def Token_event_def Let_def
      sum_values_update dict_get_update split: option.split)

lemma supply_inv_mint:
  "supply_inv s \<Longrightarrow> supply_inv (snd (Token_mint account amount s))"
  by (simp add: supply_inv_def Token_mint_def Token_event_def Let_def
      sum_values_update dict_get_update)

lemma supply_inv_burn:
  "supply_inv s \<Longrightarrow> supply_inv (snd (Token_burn account amount s))"
  by (simp add: supply_inv_def Token_burn_def Token_event_def Let_def
      sum_values_update dict_get_update)

lemma returned_snd: "returned r = Some s' \<Longrightarrow> snd r = s'"
  by (cases r rule: returned.cases) auto

lemma supply_inv_step:
  "supply_inv s \<Longrightarrow> token_step c s = Some s' \<Longrightarrow> supply_inv s'"
  by (cases c)
    (auto dest!: returned_snd
      intro: supply_inv_transfer supply_inv_approve supply_inv_transfer_from
        supply_inv_mint supply_inv_burn)

lemma supply_inv_run:
  "supply_inv s \<Longrightarrow> token_run cs s = Some s' \<Longrightarrow> supply_inv s'"
proof (induction cs arbitrary: s)
  case Nil
  then show ?case by simp
next
  case (Cons c cs)
  then show ?case
    by (auto split: option.splits dest: supply_inv_step)
qed

text \<open>
  C1. In every state reached from a fresh Token by calls of transfer, approve,
  transfer_from, _mint and _burn that all return, the values of \<^verbatim>\<open>balances\<close> add up
  to \<^verbatim>\<open>total_supply\<close>.
\<close>

theorem token_sum_balances_eq_total_supply:
  "token_run cs (Token_init nm sy dec) = Some s \<Longrightarrow>
     sum_list (map snd (token_balances s)) = token_total_supply s"
  using supply_inv_run [OF supply_inv_init] by (simp add: supply_inv_def)

lemmas token_eval =
  Token_init_def Token_mint_def Token_approve_def Token_transfer_from_def Token_transfer_def
  Token_burn_def Token_allowance_def Token_balance_of_def Token_event_def Burnable_burn_def
  Burnable_burn_from_def dict_get_def Let_def

theorem token_sum_balances_eq_total_supply_witness:
  "\<exists>s. token_run
          [Mint ''A'' 1000, Approve ''A'' ''B'' 50, TransferFrom ''B'' ''A'' ''C'' 50,
           Transfer ''A'' ''B'' 300, Burn ''B'' 100]
          (Token_init ''X'' ''X'' 18) = Some s
       \<and> token_balances s = [(''A'', 650), (''C'', 50), (''B'', 200)]
       \<and> sum_list (map snd (token_balances s)) = token_total_supply s"
proof -
  obtain s where run:
    "token_run
       [Mint ''A'' 1000, Approve ''A'' ''B'' 50, TransferFrom ''B'' ''A'' ''C'' 50,
        Transfer ''A'' ''B'' 300, Burn ''B'' 100]
       (Token_init ''X'' ''X'' 18) = Some s"
    and bal: "token_balances s = [(''A'', 650), (''C'', 50), (''B'', 200)]"
    by (simp add: token_eval)
  from token_sum_balances_eq_total_supply [OF run] run bal show ?thesis
    by blast
qed

text \<open>
  The same holds after calls that raise: a call that raises after its writes has
  written both balances.
\<close>

lemma supply_inv_after: "supply_inv s \<Longrightarrow> supply_inv (token_after c s)"
  by (cases c)
    (simp_all add: supply_inv_transfer supply_inv_approve supply_inv_transfer_from
      supply_inv_mint supply_inv_burn)

lemma supply_inv_after_all: "supply_inv s \<Longrightarrow> supply_inv (token_after_all cs s)"
  by (induction cs arbitrary: s) (simp_all add: supply_inv_after)

lemma token_supply_any_calls:
  "sum_list (map snd (token_balances (token_after_all cs (Token_init nm sy dec))))
     = token_total_supply (token_after_all cs (Token_init nm sy dec))"
  using supply_inv_after_all [OF supply_inv_init, of cs nm sy dec] by (simp add: supply_inv_def)

lemma funded_reachable:
  "0 < m \<Longrightarrow> token_run [Mint ''A'' m] (Token_init ''X'' ''X'' 18) = Some (minted m)"
  "0 < m \<Longrightarrow>
   token_run [Mint ''A'' m, Approve ''A'' ''B'' n] (Token_init ''X'' ''X'' 18) = Some (funded m n)"
  by (simp_all add: token_eval)

section \<open>Token: negative amounts\<close>

text \<open>
  With amounts that are not negative no call, returning or raising, leaves a negative
  balance.
\<close>

lemma list_all_update:
  "list_all P al \<Longrightarrow> P (k, v) \<Longrightarrow> list_all P (AList.update k v al)"
  by (induction al) auto

lemma dict_get_nonneg:
  "list_all (\<lambda>p. 0 \<le> snd p) d \<Longrightarrow> (0::int) \<le> dict_get d k 0"
  by (induction d) (auto simp: dict_get_def)

lemma nonneg_after:
  "nonneg_balances s \<Longrightarrow> 0 \<le> amount_of c \<Longrightarrow> nonneg_balances (token_after c s)"
proof (cases c)
  case (Transfer sender to amount)
  assume "nonneg_balances s" "0 \<le> amount_of c"
  with Transfer show ?thesis
    by (simp add: nonneg_balances_def Token_transfer_def Token_event_def Let_def
        list_all_update dict_get_nonneg)
next
  case (Approve sender spender amount)
  assume "nonneg_balances s" "0 \<le> amount_of c"
  with Approve show ?thesis
    by (simp add: nonneg_balances_def Token_approve_def Token_event_def Let_def)
next
  case (TransferFrom sender from_addr to amount)
  assume "nonneg_balances s" "0 \<le> amount_of c"
  with TransferFrom show ?thesis
    by (simp add: nonneg_balances_def Token_transfer_from_def Token_event_def Let_def
        list_all_update dict_get_nonneg split: option.split)
next
  case (Mint account amount)
  assume "nonneg_balances s" "0 \<le> amount_of c"
  with Mint show ?thesis
    by (simp add: nonneg_balances_def Token_mint_def Token_event_def Let_def
        list_all_update dict_get_nonneg)
next
  case (Burn account amount)
  assume "nonneg_balances s" "0 \<le> amount_of c"
  with Burn show ?thesis
    by (simp add: nonneg_balances_def Token_burn_def Token_event_def Let_def
        list_all_update dict_get_nonneg)
qed

lemma nonneg_after_all:
  "nonneg_balances s \<Longrightarrow> \<forall>c\<in>set cs. 0 \<le> amount_of c \<Longrightarrow>
   nonneg_balances (token_after_all cs s)"
  by (induction cs arbitrary: s) (simp_all add: nonneg_after)

lemma token_balances_nonneg:
  "\<forall>c\<in>set cs. 0 \<le> amount_of c \<Longrightarrow>
   list_all (\<lambda>p. 0 \<le> snd p) (token_balances (token_after_all cs (Token_init nm sy dec)))"
  using nonneg_after_all [of "Token_init nm sy dec" cs]
  by (simp add: nonneg_balances_def Token_init_def)

text \<open>
  C2. No operation leaves a balance below zero, whatever the amount. The code does not
  keep this: \<^verbatim>\<open>transfer_from\<close> has no check of the sign of \<open>amount\<close>, which
  \<^verbatim>\<open>transfer\<close> has. From the reachable state \<open>funded 10 0\<close>, \<^verbatim>\<open>transfer_from("A", "C", -5)\<close>
  called by \<open>B\<close> returns and leaves \<open>C\<close> with the balance \<open>-5\<close>; \<^verbatim>\<open>transfer("C", -5)\<close>
  called by \<open>A\<close> raises.
\<close>

theorem token_transfer_from_negative_amount:
  "token_run [Mint ''A'' 10, Approve ''A'' ''B'' 0] (Token_init ''X'' ''X'' 18) = Some (funded 10 0)
   \<and> fst (Token_transfer_from ''B'' ''A'' ''C'' (- 5) (funded 10 0)) = Return True
   \<and> token_balances (snd (Token_transfer_from ''B'' ''A'' ''C'' (- 5) (funded 10 0)))
       = [(''A'', 15), (''C'', - 5)]
   \<and> Token_balance_of (snd (Token_transfer_from ''B'' ''A'' ''C'' (- 5) (funded 10 0))) ''C'' = - 5
   \<and> Token_transfer ''A'' ''C'' (- 5) (funded 10 0)
       = (Raise (Exception ''Token: amount must be positive''), funded 10 0)"
  by (simp add: token_eval)

section \<open>Token and Burnable: calls that raise\<close>

text \<open>
  C3. A call that raises leaves the state as it was. The code does not keep this in two
  places. \<^verbatim>\<open>Burnable.burn_from\<close> writes the lowered allowance and then calls
  \<^verbatim>\<open>_burn\<close>, which checks the balance: from \<open>funded 10 50\<close>, \<^verbatim>\<open>burn_from("A", 30)\<close> called by
  \<open>B\<close> raises and leaves the allowance of \<open>B\<close> at 20. \<^verbatim>\<open>Token.transfer_from\<close> writes both
  balances and then indexes \<^verbatim>\<open>self.allowances[from_addr]\<close>: on the Token with 10 minted
  to \<open>A\<close> and no approval, \<^verbatim>\<open>transfer_from("A", "C", 0)\<close> called by \<open>B\<close> raises
  \<^verbatim>\<open>KeyError\<close> and leaves a new entry for \<open>C\<close> in \<^verbatim>\<open>balances\<close>.
\<close>

theorem failing_calls_keep_partial_writes:
  "token_run [Mint ''A'' 10, Approve ''A'' ''B'' 50] (Token_init ''X'' ''X'' 18) = Some (funded 10 50)
   \<and> Burnable_burn_from ''B'' ''A'' 30 (funded 10 50)
       = (Raise (Exception ''Token: burn amount exceeds balance''),
          (funded 10 50)\<lparr>token_allowances := [(''A'', [(''B'', 20)])]\<rparr>)
   \<and> Token_allowance (funded 10 50) ''A'' ''B'' = 50
   \<and> Token_allowance (snd (Burnable_burn_from ''B'' ''A'' 30 (funded 10 50))) ''A'' ''B'' = 20
   \<and> token_run [Mint ''A'' 10] (Token_init ''X'' ''X'' 18) = Some (minted 10)
   \<and> Token_transfer_from ''B'' ''A'' ''C'' 0 (minted 10)
       = (Raise KeyError, (minted 10)\<lparr>token_balances := [(''A'', 10), (''C'', 0)]\<rparr>)"
  by (simp add: token_eval)

section \<open>Token: the effect of transfer_from\<close>

lemma transfer_from_allowance:
  assumes "Token_transfer_from sender from_addr to amount s = (Return True, s')"
  shows "Token_allowance s' from_addr sender = Token_allowance s from_addr sender - amount"
  using assms
  by (auto simp: Token_transfer_from_def Token_allowance_def Token_event_def Let_def
      update_conv' dict_get_update split: if_splits option.splits)

lemma transfer_from_balance:
  assumes "Token_transfer_from sender from_addr to amount s = (Return True, s')"
  shows "Token_balance_of s' x =
         Token_balance_of s x - (if x = from_addr then amount else 0)
           + (if x = to then amount else 0)"
  using assms
  by (auto simp: Token_transfer_from_def Token_balance_of_def Token_event_def Let_def
      dict_get_update split: if_splits option.splits)

lemma transfer_from_recipient:
  "Token_transfer_from sender from_addr to amount s = (Return True, s') \<Longrightarrow> to \<noteq> ZERO_ADDRESS"
  by (auto simp: Token_transfer_from_def split: if_splits)

lemma transfer_from_low_allowance:
  "to \<noteq> ZERO_ADDRESS \<Longrightarrow> Token_allowance s from_addr sender < amount \<Longrightarrow>
   Token_transfer_from sender from_addr to amount s =
     (Raise (Exception ''Token: insufficient allowance''), s)"
  by (simp add: Token_transfer_from_def)

lemma approve_sets_allowance:
  assumes "Token_approve sender spender amount s = (Return True, s')"
  shows "Token_allowance s' sender spender = amount"
    and "token_balances s' = token_balances s"
  using assms
  by (auto simp: Token_approve_def Token_allowance_def Token_event_def Let_def
      update_conv' dict_get_def split: if_splits option.splits)

text \<open>
  C6, as stated, says that every transfer_from that returns lowers the balance of
  \<open>from\<close> by \<open>amount\<close>. With \<open>from = to\<close> it does not: from \<open>funded 10 5\<close>,
  \<^verbatim>\<open>transfer_from("A", "A", 5)\<close> called by \<open>B\<close> returns and \<open>A\<close> still holds 10.
\<close>

theorem token_transfer_from_self_counterexample:
  "fst (Token_transfer_from ''B'' ''A'' ''A'' 5 (funded 10 5)) = Return True
   \<and> Token_balance_of (funded 10 5) ''A'' = 10
   \<and> Token_balance_of (snd (Token_transfer_from ''B'' ''A'' ''A'' 5 (funded 10 5))) ''A''
       \<noteq> Token_balance_of (funded 10 5) ''A'' - 5"
  by (simp add: token_eval)

text \<open>
  C6, amended. A transfer_from that returns lowers the allowance of the caller over
  \<open>from\<close> by exactly \<open>amount\<close>; when \<open>from\<close> and \<open>to\<close> differ it lowers the balance of
  \<open>from\<close> by \<open>amount\<close> and raises the balance of \<open>to\<close> by \<open>amount\<close>, and when they are the
  same account its balance is unchanged. After \<^verbatim>\<open>approve(b, 50)\<close> by \<open>a\<close> and a
  \<^verbatim>\<open>transfer_from(a, c, 50)\<close> by \<open>b\<close> that returns, with \<open>c\<close> another account than \<open>a\<close>
  that held nothing, the allowance of \<open>b\<close> over \<open>a\<close> is 0, \<open>c\<close> holds 50, and
  \<^verbatim>\<open>transfer_from(a, c, 1)\<close> by \<open>b\<close> raises "insufficient allowance" and changes nothing.
\<close>

theorem token_transfer_from_effect:
  "(Token_transfer_from sender from_addr to amount s = (Return True, s') \<longrightarrow>
      Token_allowance s' from_addr sender = Token_allowance s from_addr sender - amount
      \<and> (from_addr \<noteq> to \<longrightarrow>
           Token_balance_of s' from_addr = Token_balance_of s from_addr - amount
           \<and> Token_balance_of s' to = Token_balance_of s to + amount)
      \<and> (from_addr = to \<longrightarrow> Token_balance_of s' from_addr = Token_balance_of s from_addr))
   \<and> (Token_approve a b 50 t = (Return True, t1)
        \<and> Token_transfer_from b a c 50 t1 = (Return True, t2)
        \<and> a \<noteq> c \<and> Token_balance_of t c = 0 \<longrightarrow>
      Token_allowance t2 a b = 0
      \<and> Token_balance_of t2 c = 50
      \<and> Token_transfer_from b a c 1 t2
          = (Raise (Exception ''Token: insufficient allowance''), t2))"
proof (intro conjI impI)
  assume ok: "Token_transfer_from sender from_addr to amount s = (Return True, s')"
  show "Token_allowance s' from_addr sender = Token_allowance s from_addr sender - amount"
    by (rule transfer_from_allowance [OF ok])
  show "Token_balance_of s' from_addr = Token_balance_of s from_addr - amount"
    if "from_addr \<noteq> to"
    using that transfer_from_balance [OF ok, of from_addr] by simp
  show "Token_balance_of s' to = Token_balance_of s to + amount" if "from_addr \<noteq> to"
    using that transfer_from_balance [OF ok, of to] by simp
  show "Token_balance_of s' from_addr = Token_balance_of s from_addr" if "from_addr = to"
    using that transfer_from_balance [OF ok, of from_addr] by simp
next
  assume h: "Token_approve a b 50 t = (Return True, t1)
             \<and> Token_transfer_from b a c 50 t1 = (Return True, t2)
             \<and> a \<noteq> c \<and> Token_balance_of t c = 0"
  then have ap: "Token_approve a b 50 t = (Return True, t1)"
    and tf: "Token_transfer_from b a c 50 t1 = (Return True, t2)"
    and ac: "a \<noteq> c" and c0: "Token_balance_of t c = 0"
    by simp_all
  from approve_sets_allowance [OF ap] have a1: "Token_allowance t1 a b = 50"
    and b1: "Token_balance_of t1 c = Token_balance_of t c"
    by (simp_all add: Token_balance_of_def)
  show allow0: "Token_allowance t2 a b = 0"
    using transfer_from_allowance [OF tf] a1 by simp
  show "Token_balance_of t2 c = 50"
    using transfer_from_balance [OF tf, of c] ac b1 c0 by simp
  show "Token_transfer_from b a c 1 t2
          = (Raise (Exception ''Token: insufficient allowance''), t2)"
    using transfer_from_low_allowance [OF transfer_from_recipient [OF tf], of t2 a b 1] allow0
    by simp
qed

theorem token_transfer_from_effect_witness:
  "Token_transfer_from ''B'' ''A'' ''C'' 4 (funded 10 5)
     = (Return True, snd (Token_transfer_from ''B'' ''A'' ''C'' 4 (funded 10 5)))
   \<and> Token_allowance (snd (Token_transfer_from ''B'' ''A'' ''C'' 4 (funded 10 5))) ''A'' ''B'' = 1
   \<and> Token_balance_of (snd (Token_transfer_from ''B'' ''A'' ''C'' 4 (funded 10 5))) ''A'' = 6
   \<and> Token_balance_of (snd (Token_transfer_from ''B'' ''A'' ''C'' 4 (funded 10 5))) ''C'' = 4
   \<and> Token_approve ''A'' ''B'' 50 (minted 80) = (Return True, funded 80 50)
   \<and> Token_transfer_from ''B'' ''A'' ''C'' 50 (funded 80 50)
       = (Return True, snd (Token_transfer_from ''B'' ''A'' ''C'' 50 (funded 80 50)))
   \<and> Token_balance_of (minted 80) ''C'' = 0
   \<and> Token_allowance (snd (Token_transfer_from ''B'' ''A'' ''C'' 50 (funded 80 50))) ''A'' ''B'' = 0
   \<and> Token_balance_of (snd (Token_transfer_from ''B'' ''A'' ''C'' 50 (funded 80 50))) ''C'' = 50
   \<and> fst (Token_transfer_from ''B'' ''A'' ''C'' 1
            (snd (Token_transfer_from ''B'' ''A'' ''C'' 50 (funded 80 50))))
       = Raise (Exception ''Token: insufficient allowance'')"
proof -
  have h1: "Token_transfer_from ''B'' ''A'' ''C'' 4 (funded 10 5)
              = (Return True, snd (Token_transfer_from ''B'' ''A'' ''C'' 4 (funded 10 5)))"
    by (simp add: token_eval)
  have h2: "Token_approve ''A'' ''B'' 50 (minted 80) = (Return True, funded 80 50)"
    by (simp add: token_eval)
  have h3: "Token_transfer_from ''B'' ''A'' ''C'' 50 (funded 80 50)
              = (Return True, snd (Token_transfer_from ''B'' ''A'' ''C'' 50 (funded 80 50)))"
    by (simp add: token_eval)
  have h4: "Token_balance_of (minted 80) ''C'' = 0"
    by (simp add: token_eval)
  have pre: "Token_allowance (funded 10 5) ''A'' ''B'' = 5"
    "Token_balance_of (funded 10 5) ''A'' = 10" "Token_balance_of (funded 10 5) ''C'' = 0"
    by (simp_all add: token_eval)
  have ne: "''A'' \<noteq> ''C''"
    by simp
  note inst = token_transfer_from_effect
    [of "''B''" "''A''" "''C''" 4 "funded 10 5"
        "snd (Token_transfer_from ''B'' ''A'' ''C'' 4 (funded 10 5))"
        "''A''" "''B''" "minted 80" "funded 80 50" "''C''"
        "snd (Token_transfer_from ''B'' ''A'' ''C'' 50 (funded 80 50))"]
  from inst h1 pre ne
  have c1: "Token_allowance (snd (Token_transfer_from ''B'' ''A'' ''C'' 4 (funded 10 5))) ''A'' ''B'' = 1"
    and c2: "Token_balance_of (snd (Token_transfer_from ''B'' ''A'' ''C'' 4 (funded 10 5))) ''A'' = 6"
    and c3: "Token_balance_of (snd (Token_transfer_from ''B'' ''A'' ''C'' 4 (funded 10 5))) ''C'' = 4"
    by simp_all
  from inst h2 h3 h4 ne
  have c4: "Token_allowance (snd (Token_transfer_from ''B'' ''A'' ''C'' 50 (funded 80 50))) ''A'' ''B'' = 0"
    and c5: "Token_balance_of (snd (Token_transfer_from ''B'' ''A'' ''C'' 50 (funded 80 50))) ''C'' = 50"
    and c6: "fst (Token_transfer_from ''B'' ''A'' ''C'' 1
                   (snd (Token_transfer_from ''B'' ''A'' ''C'' 50 (funded 80 50))))
               = Raise (Exception ''Token: insufficient allowance'')"
    by simp_all
  from h1 h2 h3 h4 c1 c2 c3 c4 c5 c6 show ?thesis
    by blast
qed

section \<open>NFT: the counting invariant\<close>

lemma nft_inv_init: "nft_inv (NFT_init nm sy)"
  by (simp add: nft_inv_def NFT_init_def dict_get_def owned_def)

lemma NFT_mint_Return:
  assumes "NFT_mint to token_id s = (Return u, s')"
  shows "to \<noteq> ZERO_ADDRESS" and "map_of (nft_owners s) token_id = None"
    and "nft_owners s' = AList.update token_id to (nft_owners s)"
    and "nft_balances s' = AList.update to (dict_get (nft_balances s) to 0 + 1) (nft_balances s)"
    and "nft_token_approvals s' = nft_token_approvals s"
    and "nft_operator_approvals s' = nft_operator_approvals s"
  using assms
  by (auto simp add: NFT_mint_def NFT_event_def Let_def split: if_splits)

lemma NFT_burn_Return:
  assumes "NFT_burn token_id s = (Return u, s')"
  obtains owner b where "map_of (nft_owners s) token_id = Some owner" and "owner \<noteq> []"
    and "map_of (nft_balances s) owner = Some b"
    and "nft_owners s' = AList.delete token_id (nft_owners s)"
    and "nft_balances s' = AList.update owner (b - 1) (nft_balances s)"
    and "nft_token_approvals s' = AList.delete token_id (nft_token_approvals s)"
    and "nft_operator_approvals s' = nft_operator_approvals s"
  using assms
  by (auto simp add: NFT_burn_def NFT_event_def Let_def delete_id map_of_eq_None_iff
      split: if_splits option.splits)

lemma NFT_transfer_from_Return:
  assumes "NFT_transfer_from sender from_addr to token_id s = (Return u, s')"
  obtains b where "NFT_is_approved_or_owner s sender token_id = Return True"
    and "to \<noteq> ZERO_ADDRESS"
    and "map_of (nft_owners s) token_id = Some from_addr"
    and "map_of (nft_balances s) from_addr = Some b"
    and "nft_owners s' = AList.update token_id to (nft_owners s)"
    and "nft_balances s' =
           AList.update to (dict_get (AList.update from_addr (b - 1) (nft_balances s)) to 0 + 1)
             (AList.update from_addr (b - 1) (nft_balances s))"
    and "nft_token_approvals s' = AList.delete token_id (nft_token_approvals s)"
    and "nft_operator_approvals s' = nft_operator_approvals s"
  using assms
  by (auto simp add: NFT_transfer_from_def NFT_event_def Let_def delete_id map_of_eq_None_iff
      split: if_splits option.splits result.splits)

lemma NFT_approve_Return:
  assumes "NFT_approve sender to token_id s = (Return u, s')"
  shows "nft_owners s' = nft_owners s" and "nft_balances s' = nft_balances s"
  using assms
  by (auto simp add: NFT_approve_def NFT_event_def Let_def split: if_splits result.splits)

lemma NFT_set_approval_for_all_Return:
  assumes "NFT_set_approval_for_all sender operator approved s = (Return u, s')"
  shows "nft_owners s' = nft_owners s" and "nft_balances s' = nft_balances s"
  using assms
  by (auto simp add: NFT_set_approval_for_all_def NFT_event_def Let_def split: if_splits)

lemma nft_inv_mint:
  assumes inv: "nft_inv s" and ok: "NFT_mint to token_id s = (Return u, s')"
  shows "nft_inv s'"
  using inv NFT_mint_Return [OF ok]
  by (simp add: nft_inv_def sum_values_update dict_get_update distinct_update
      length_update_absent owned_update_absent)

lemma nft_invI:
  assumes "distinct (map fst (nft_owners s))"
    and "sum_list (map snd (nft_balances s)) = int (length (nft_owners s))"
    and "\<And>a. dict_get (nft_balances s) a 0 = int (owned (nft_owners s) a)"
  shows "nft_inv s"
  using assms by (simp add: nft_inv_def)

lemma nft_invD:
  assumes "nft_inv s"
  shows "distinct (map fst (nft_owners s))"
    and "sum_list (map snd (nft_balances s)) = int (length (nft_owners s))"
    and "dict_get (nft_balances s) a 0 = int (owned (nft_owners s) a)"
  using assms by (simp_all add: nft_inv_def)

lemma nft_inv_burn:
  assumes inv: "nft_inv s" and ok: "NFT_burn token_id s = (Return u, s')"
  shows "nft_inv s'"
proof -
  from ok obtain owner b where o: "map_of (nft_owners s) token_id = Some owner"
    and b: "map_of (nft_balances s) owner = Some b"
    and os: "nft_owners s' = AList.delete token_id (nft_owners s)"
    and bs: "nft_balances s' = AList.update owner (b - 1) (nft_balances s)"
    by (rule NFT_burn_Return)
  note d = nft_invD(1) [OF inv]
  have b_eq: "b = int (owned (nft_owners s) owner)"
    using nft_invD(3) [OF inv, of owner] dict_get_Some [OF b, of 0] by simp
  show ?thesis
  proof (rule nft_invI)
    show "distinct (map fst (nft_owners s'))"
      using d by (simp add: os distinct_delete)
    show "sum_list (map snd (nft_balances s')) = int (length (nft_owners s'))"
      using length_delete_present [OF d o] nft_invD(2) [OF inv] dict_get_Some [OF b, of 0]
      by (simp add: os bs sum_values_update)
    show "dict_get (nft_balances s') a 0 = int (owned (nft_owners s') a)" for a
      using nft_invD(3) [OF inv, of a] b_eq
      by (simp add: os bs dict_get_update owned_delete [OF d o])
  qed
qed

lemma nft_inv_transfer_from:
  assumes inv: "nft_inv s"
    and ok: "NFT_transfer_from sender from_addr to token_id s = (Return u, s')"
  shows "nft_inv s'"
proof -
  from ok obtain b where o: "map_of (nft_owners s) token_id = Some from_addr"
    and b: "map_of (nft_balances s) from_addr = Some b"
    and os: "nft_owners s' = AList.update token_id to (nft_owners s)"
    and bs: "nft_balances s' =
           AList.update to (dict_get (AList.update from_addr (b - 1) (nft_balances s)) to 0 + 1)
             (AList.update from_addr (b - 1) (nft_balances s))"
    by (rule NFT_transfer_from_Return)
  note d = nft_invD(1) [OF inv]
  have b_eq: "b = int (owned (nft_owners s) from_addr)"
    using nft_invD(3) [OF inv, of from_addr] dict_get_Some [OF b, of 0] by simp
  show ?thesis
  proof (rule nft_invI)
    show "distinct (map fst (nft_owners s'))"
      using d by (simp add: os distinct_update)
    show "sum_list (map snd (nft_balances s')) = int (length (nft_owners s'))"
      using length_update_present [OF o, of to] nft_invD(2) [OF inv] dict_get_Some [OF b, of 0]
      by (simp add: os bs sum_values_update dict_get_update)
    show "dict_get (nft_balances s') a 0 = int (owned (nft_owners s') a)" for a
      using nft_invD(3) [OF inv, of a] nft_invD(3) [OF inv, of to] b_eq
      by (simp add: os bs dict_get_update owned_update_present [OF d o])
  qed
qed

lemma nft_inv_unchanged:
  "nft_inv s \<Longrightarrow> nft_owners s' = nft_owners s \<Longrightarrow> nft_balances s' = nft_balances s \<Longrightarrow>
   nft_inv s'"
  by (simp add: nft_inv_def)

lemma nft_inv_step: "nft_inv s \<Longrightarrow> nft_step c s = Some s' \<Longrightarrow> nft_inv s'"
proof (cases c)
  case (NMint to token_id)
  assume "nft_inv s" "nft_step c s = Some s'"
  with NMint show ?thesis
    by (cases "NFT_mint to token_id s" rule: returned.cases) (auto intro: nft_inv_mint)
next
  case (NBurn token_id)
  assume "nft_inv s" "nft_step c s = Some s'"
  with NBurn show ?thesis
    by (cases "NFT_burn token_id s" rule: returned.cases) (auto intro: nft_inv_burn)
next
  case (NTransferFrom sender from_addr to token_id)
  assume "nft_inv s" "nft_step c s = Some s'"
  with NTransferFrom show ?thesis
    by (cases "NFT_transfer_from sender from_addr to token_id s" rule: returned.cases)
      (auto intro: nft_inv_transfer_from)
next
  case (NApprove sender to token_id)
  assume "nft_inv s" "nft_step c s = Some s'"
  with NApprove show ?thesis
    by (cases "NFT_approve sender to token_id s" rule: returned.cases)
      (auto intro: nft_inv_unchanged dest: NFT_approve_Return)
next
  case (NSetApprovalForAll sender operator approved)
  assume "nft_inv s" "nft_step c s = Some s'"
  with NSetApprovalForAll show ?thesis
    by (cases "NFT_set_approval_for_all sender operator approved s" rule: returned.cases)
      (auto intro: nft_inv_unchanged dest: NFT_set_approval_for_all_Return)
qed

lemma nft_inv_run: "nft_inv s \<Longrightarrow> nft_run cs s = Some s' \<Longrightarrow> nft_inv s'"
proof (induction cs arbitrary: s)
  case Nil
  then show ?case by simp
next
  case (Cons c cs)
  then show ?case
    by (auto split: option.splits dest: nft_inv_step)
qed

lemma nft_inv_owner_balance:
  assumes "nft_inv s" and "map_of (nft_owners s) token_id = Some owner"
  shows "\<exists>b. map_of (nft_balances s) owner = Some b \<and> 1 \<le> b"
proof -
  from assms have "dict_get (nft_balances s) owner 0 = int (owned (nft_owners s) owner)"
    by (simp add: nft_inv_def)
  moreover from owned_pos [OF assms(2)] have "1 \<le> int (owned (nft_owners s) owner)"
    by simp
  ultimately show ?thesis
    by (cases "map_of (nft_balances s) owner") (simp_all add: dict_get_def)
qed

text \<open>
  C5. In every state reached from a fresh NFT by calls of _mint, _burn, transfer_from,
  approve and set_approval_for_all that all return, the values of \<^verbatim>\<open>balances\<close> add up to
  the number of entries of \<^verbatim>\<open>owners\<close>, and the owner of every token has an entry in
  \<^verbatim>\<open>balances\<close> that is at least 1.
\<close>

theorem nft_balances_count_owners:
  "nft_run cs (NFT_init nm sy) = Some s \<Longrightarrow>
     sum_list (map snd (nft_balances s)) = int (length (nft_owners s))
     \<and> (\<forall>token_id owner. map_of (nft_owners s) token_id = Some owner \<longrightarrow>
          (\<exists>b. map_of (nft_balances s) owner = Some b \<and> 1 \<le> b))"
  using nft_inv_run [OF nft_inv_init] nft_inv_owner_balance
  by (fastforce simp: nft_inv_def)

lemmas nft_eval =
  NFT_init_def NFT_mint_def NFT_burn_def NFT_transfer_from_def NFT_safe_transfer_from_def
  NFT_approve_def NFT_set_approval_for_all_def NFT_owner_of_def NFT_get_approved_def
  NFT_is_approved_for_all_def NFT_is_approved_or_owner_def NFT_balance_of_def NFT_event_def
  dict_get_def Let_def

lemma delegated_reachable:
  "nft_run [NMint ''A'' 1, NApprove ''A'' ''B'' 1] (NFT_init ''N'' ''N'') = Some delegated"
  by (simp add: nft_eval)

theorem nft_balances_count_owners_witness:
  "\<exists>s. nft_run
          [NMint ''A'' 1, NMint ''A'' 2, NApprove ''A'' ''B'' 1,
           NSetApprovalForAll ''A'' ''D'' True, NTransferFrom ''B'' ''A'' ''C'' 1, NBurn 2]
          (NFT_init ''N'' ''N'') = Some s
       \<and> nft_owners s = [(1, ''C'')]
       \<and> nft_balances s = [(''A'', 0), (''C'', 1)]
       \<and> sum_list (map snd (nft_balances s)) = int (length (nft_owners s))
       \<and> (\<exists>b. map_of (nft_balances s) ''C'' = Some b \<and> 1 \<le> b)"
proof -
  obtain s where run:
    "nft_run
       [NMint ''A'' 1, NMint ''A'' 2, NApprove ''A'' ''B'' 1,
        NSetApprovalForAll ''A'' ''D'' True, NTransferFrom ''B'' ''A'' ''C'' 1, NBurn 2]
       (NFT_init ''N'' ''N'') = Some s"
    and os: "nft_owners s = [(1, ''C'')]"
    and bs: "nft_balances s = [(''A'', 0), (''C'', 1)]"
    by (simp add: nft_eval)
  from os have o: "map_of (nft_owners s) 1 = Some ''C''"
    by simp
  from nft_balances_count_owners [OF run] o run os bs show ?thesis
    by blast
qed

section \<open>NFT: safe_transfer_from\<close>

text \<open>
  C10. \<^verbatim>\<open>safe_transfer_from\<close> is \<^verbatim>\<open>transfer_from\<close>: from every state and for every caller
  and arguments both give the same outcome (the same return, or the same exception)
  and leave the same state, the log of events included.
\<close>

theorem nft_safe_transfer_from_eq:
  "NFT_safe_transfer_from sender from_addr to token_id s =
   NFT_transfer_from sender from_addr to token_id s"
  by (simp add: NFT_safe_transfer_from_def split: prod.split result.split)

section \<open>NFT: minting a burned token again\<close>

text \<open>
  C9. After a \<^verbatim>\<open>_burn(token_id)\<close> that returns, \<^verbatim>\<open>_mint(to, token_id)\<close> with \<open>to\<close> not the
  zero address returns and records \<open>to\<close> as the owner of \<open>token_id\<close>; in any state, such
  a mint returns exactly when the token has no recorded owner.
\<close>

theorem nft_remint_after_burn:
  assumes "NFT_burn token_id s = (Return (), s1)" and "to \<noteq> ZERO_ADDRESS"
  shows "fst (NFT_mint to token_id s1) = Return ()
         \<and> map_of (nft_owners (snd (NFT_mint to token_id s1))) token_id = Some to
         \<and> (\<forall>t st. (fst (NFT_mint to t st) = Return ()) = (map_of (nft_owners st) t = None))"
proof -
  from assms(1) have "nft_owners s1 = AList.delete token_id (nft_owners s)"
    by (rule NFT_burn_Return)
  then have "map_of (nft_owners s1) token_id = None"
    by (simp add: delete_conv)
  with assms(2) show ?thesis
    by (simp add: NFT_mint_def NFT_event_def Let_def update_conv')
qed

theorem nft_remint_after_burn_witness:
  "NFT_burn 1 delegated = (Return (), snd (NFT_burn 1 delegated))
   \<and> ''C'' \<noteq> ZERO_ADDRESS
   \<and> fst (NFT_mint ''C'' 1 (snd (NFT_burn 1 delegated))) = Return ()
   \<and> map_of (nft_owners (snd (NFT_mint ''C'' 1 (snd (NFT_burn 1 delegated))))) 1 = Some ''C''
   \<and> fst (NFT_mint ''C'' 1 delegated) = Raise (Exception ''NFT: token already minted'')"
proof -
  have h: "NFT_burn 1 delegated = (Return (), snd (NFT_burn 1 delegated))"
    by (simp add: nft_eval)
  have z: "''C'' \<noteq> ZERO_ADDRESS"
    by simp
  have m: "fst (NFT_mint ''C'' 1 delegated) = Raise (Exception ''NFT: token already minted'')"
    by (simp add: nft_eval)
  from nft_remint_after_burn [OF h z] h z m show ?thesis
    by simp
qed

section \<open>NFT: the effect of transfer_from\<close>

lemma approved_or_owner_total:
  "map_of (nft_owners s) token_id = Some owner \<Longrightarrow>
   \<exists>x. NFT_is_approved_or_owner s other token_id = Return x"
  by (auto simp add: NFT_is_approved_or_owner_def NFT_get_approved_def)

lemma nft_transfer_from_wrong_owner:
  assumes "map_of (nft_owners s) token_id = Some owner" and "owner \<noteq> from_addr"
    and "to \<noteq> ZERO_ADDRESS"
  shows "NFT_transfer_from other from_addr to token_id s
           = (Raise (Exception ''NFT: transfer caller is not owner nor approved''), s)
         \<or> NFT_transfer_from other from_addr to token_id s
           = (Raise (Exception ''NFT: transfer from incorrect owner''), s)"
proof -
  from approved_or_owner_total [OF assms(1)] obtain x
    where "NFT_is_approved_or_owner s other token_id = Return x" ..
  with assms show ?thesis
    by (cases x) (simp_all add: NFT_transfer_from_def)
qed

lemma nft_transfer_from_unauthorised:
  assumes "map_of (nft_owners s) token_id = Some owner"
    and "map_of (nft_token_approvals s) token_id = None"
    and "other \<noteq> owner" and "other \<noteq> ''''" and "\<not> NFT_is_approved_for_all s owner other"
  shows "NFT_transfer_from other from_addr to token_id s
           = (Raise (Exception ''NFT: transfer caller is not owner nor approved''), s)"
  using assms
  by (simp add: NFT_transfer_from_def NFT_is_approved_or_owner_def NFT_get_approved_def
      dict_get_def)

lemma nft_self_transfer_again:
  assumes "map_of (nft_owners s) token_id = Some a" and "a \<noteq> ''''" and "a \<noteq> ZERO_ADDRESS"
    and "map_of (nft_token_approvals s) token_id = None"
    and "map_of (nft_balances s) a = Some b"
    and "other = a \<or> other = '''' \<or> NFT_is_approved_for_all s a other"
  shows "fst (NFT_transfer_from other a a token_id s) = Return ()"
  using assms
  by (auto simp add: NFT_transfer_from_def NFT_is_approved_or_owner_def NFT_get_approved_def
      dict_get_def Let_def)

text \<open>
  C7, as stated, says that every transfer_from that returns lowers the count of \<open>from\<close>
  by 1 and that the same call made again by the previously approved caller fails. With
  \<open>from = to\<close> neither holds in general. From \<open>delegated\<close>, \<^verbatim>\<open>transfer_from("A", "A", 1)\<close>
  called by the approved \<open>B\<close> returns and the count of \<open>A\<close> is still 1. From
  \<open>delegated_operator\<close>, where the approved \<open>B\<close> is also an operator of \<open>A\<close>, the same call
  by \<open>B\<close> returns, and made again by \<open>B\<close> it returns again.
\<close>

theorem nft_transfer_from_self_counterexample:
  "nft_run [NMint ''A'' 1, NApprove ''A'' ''B'' 1] (NFT_init ''N'' ''N'') = Some delegated
   \<and> fst (NFT_transfer_from ''B'' ''A'' ''A'' 1 delegated) = Return ()
   \<and> NFT_balance_of delegated ''A'' = Return 1
   \<and> NFT_balance_of (snd (NFT_transfer_from ''B'' ''A'' ''A'' 1 delegated)) ''A'' = Return 1
   \<and> dict_get (nft_balances (snd (NFT_transfer_from ''B'' ''A'' ''A'' 1 delegated))) ''A'' 0
       \<noteq> dict_get (nft_balances delegated) ''A'' 0 - 1
   \<and> nft_run [NMint ''A'' 1, NSetApprovalForAll ''A'' ''B'' True, NApprove ''A'' ''B'' 1]
        (NFT_init ''N'' ''N'') = Some delegated_operator
   \<and> NFT_get_approved delegated_operator 1 = Return ''B''
   \<and> fst (NFT_transfer_from ''B'' ''A'' ''A'' 1 delegated_operator) = Return ()
   \<and> fst (NFT_transfer_from ''B'' ''A'' ''A'' 1
             (snd (NFT_transfer_from ''B'' ''A'' ''A'' 1 delegated_operator))) = Return ()"
  by (simp add: nft_eval)

text \<open>
  C7, amended. A transfer_from of an NFT that returns clears the approval of the token
  (\<^verbatim>\<open>get_approved\<close> then returns the empty string) and records \<open>to\<close> as its owner. When
  \<open>from\<close> and \<open>to\<close> differ, the count \<^verbatim>\<open>balances.get(from, 0)\<close> goes down by 1 and the count
  of \<open>to\<close> goes up by 1; when they are the same account its count is unchanged. The same
  \<^verbatim>\<open>transfer_from(from, to, token_id)\<close> made again by a caller raises "caller is not owner
  nor approved" or "transfer from incorrect owner" and changes nothing whenever \<open>from\<close>
  and \<open>to\<close> differ, and also whenever the caller is not \<open>to\<close>, not the empty string and
  not an operator of \<open>to\<close>, as a caller whose authority was the cleared approval. It
  returns again when \<open>from = to\<close> and the caller is \<open>to\<close>, the empty string or an operator
  of \<open>to\<close>.
\<close>

theorem nft_transfer_from_effect:
  "NFT_transfer_from sender from_addr to token_id s = (Return (), s') \<longrightarrow>
     NFT_get_approved s' token_id = Return ''''
     \<and> map_of (nft_owners s') token_id = Some to
     \<and> (from_addr \<noteq> to \<longrightarrow>
          dict_get (nft_balances s') from_addr 0 = dict_get (nft_balances s) from_addr 0 - 1
          \<and> dict_get (nft_balances s') to 0 = dict_get (nft_balances s) to 0 + 1)
     \<and> (from_addr = to \<longrightarrow>
          dict_get (nft_balances s') from_addr 0 = dict_get (nft_balances s) from_addr 0)
     \<and> (from_addr \<noteq> to
          \<or> (other \<noteq> to \<and> other \<noteq> '''' \<and> \<not> NFT_is_approved_for_all s' to other) \<longrightarrow>
          NFT_transfer_from other from_addr to token_id s'
            = (Raise (Exception ''NFT: transfer caller is not owner nor approved''), s')
          \<or> NFT_transfer_from other from_addr to token_id s'
            = (Raise (Exception ''NFT: transfer from incorrect owner''), s'))
     \<and> (from_addr = to
          \<and> (other = to \<or> other = '''' \<or> NFT_is_approved_for_all s' to other) \<longrightarrow>
          fst (NFT_transfer_from other from_addr to token_id s') = Return ())"
proof
  assume ok: "NFT_transfer_from sender from_addr to token_id s = (Return (), s')"
  then obtain b where au: "NFT_is_approved_or_owner s sender token_id = Return True"
    and z: "to \<noteq> ZERO_ADDRESS"
    and o: "map_of (nft_owners s) token_id = Some from_addr"
    and b: "map_of (nft_balances s) from_addr = Some b"
    and os: "nft_owners s' = AList.update token_id to (nft_owners s)"
    and bs: "nft_balances s' =
           AList.update to (dict_get (AList.update from_addr (b - 1) (nft_balances s)) to 0 + 1)
             (AList.update from_addr (b - 1) (nft_balances s))"
    and ap: "nft_token_approvals s' = AList.delete token_id (nft_token_approvals s)"
    by (rule NFT_transfer_from_Return)
  from au o have truthy: "from_addr \<noteq> ''''"
    by (auto simp: NFT_is_approved_or_owner_def)
  have o': "map_of (nft_owners s') token_id = Some to"
    by (simp add: os update_conv')
  have ap': "map_of (nft_token_approvals s') token_id = None"
    by (simp add: ap delete_conv)
  have g: "NFT_get_approved s' token_id = Return ''''"
    by (simp add: NFT_get_approved_def o' ap' dict_get_def)
  have cnt: "dict_get (nft_balances s') x 0 =
             dict_get (nft_balances s) x 0 - (if x = from_addr then 1 else 0)
               + (if x = to then 1 else 0)" for x
    using dict_get_Some [OF b, of 0] by (simp add: bs dict_get_update)
  have b': "\<exists>c. map_of (nft_balances s') to = Some c"
    by (simp add: bs update_conv')
  have fails: "NFT_transfer_from other from_addr to token_id s'
            = (Raise (Exception ''NFT: transfer caller is not owner nor approved''), s')
          \<or> NFT_transfer_from other from_addr to token_id s'
            = (Raise (Exception ''NFT: transfer from incorrect owner''), s')"
    if "from_addr \<noteq> to
          \<or> (other \<noteq> to \<and> other \<noteq> '''' \<and> \<not> NFT_is_approved_for_all s' to other)"
    using that
  proof
    assume "from_addr \<noteq> to"
    then show ?thesis
      using nft_transfer_from_wrong_owner [OF o' _ z, of from_addr other] by auto
  next
    assume "other \<noteq> to \<and> other \<noteq> '''' \<and> \<not> NFT_is_approved_for_all s' to other"
    then show ?thesis
      using nft_transfer_from_unauthorised [OF o' ap', of other from_addr to] by simp
  qed
  have again: "fst (NFT_transfer_from other from_addr to token_id s') = Return ()"
    if "from_addr = to \<and> (other = to \<or> other = '''' \<or> NFT_is_approved_for_all s' to other)"
  proof -
    from b' obtain c where c: "map_of (nft_balances s') to = Some c" ..
    from that truthy have t: "to \<noteq> ''''" by simp
    from that have w: "other = to \<or> other = '''' \<or> NFT_is_approved_for_all s' to other"
      by simp
    from nft_self_transfer_again [OF o' t z ap' c w] that show ?thesis
      by simp
  qed
  from g o' cnt [of from_addr] cnt [of to] fails again
  show "NFT_get_approved s' token_id = Return ''''
     \<and> map_of (nft_owners s') token_id = Some to
     \<and> (from_addr \<noteq> to \<longrightarrow>
          dict_get (nft_balances s') from_addr 0 = dict_get (nft_balances s) from_addr 0 - 1
          \<and> dict_get (nft_balances s') to 0 = dict_get (nft_balances s) to 0 + 1)
     \<and> (from_addr = to \<longrightarrow>
          dict_get (nft_balances s') from_addr 0 = dict_get (nft_balances s) from_addr 0)
     \<and> (from_addr \<noteq> to
          \<or> (other \<noteq> to \<and> other \<noteq> '''' \<and> \<not> NFT_is_approved_for_all s' to other) \<longrightarrow>
          NFT_transfer_from other from_addr to token_id s'
            = (Raise (Exception ''NFT: transfer caller is not owner nor approved''), s')
          \<or> NFT_transfer_from other from_addr to token_id s'
            = (Raise (Exception ''NFT: transfer from incorrect owner''), s'))
     \<and> (from_addr = to
          \<and> (other = to \<or> other = '''' \<or> NFT_is_approved_for_all s' to other) \<longrightarrow>
          fst (NFT_transfer_from other from_addr to token_id s') = Return ())"
    by simp
qed

theorem nft_transfer_from_effect_witness:
  "NFT_transfer_from ''B'' ''A'' ''C'' 1 delegated = (Return (), handed_over)
   \<and> NFT_get_approved handed_over 1 = Return ''''
   \<and> map_of (nft_owners handed_over) 1 = Some ''C''
   \<and> dict_get (nft_balances handed_over) ''A'' 0 = 0
   \<and> dict_get (nft_balances handed_over) ''C'' 0 = 1
   \<and> NFT_transfer_from ''B'' ''A'' ''C'' 1 handed_over
       = (Raise (Exception ''NFT: transfer caller is not owner nor approved''), handed_over)
   \<and> NFT_transfer_from ''B'' ''A'' ''A'' 1 delegated
       = (Return (), snd (NFT_transfer_from ''B'' ''A'' ''A'' 1 delegated))
   \<and> dict_get (nft_balances (snd (NFT_transfer_from ''B'' ''A'' ''A'' 1 delegated))) ''A'' 0 = 1
   \<and> NFT_transfer_from ''B'' ''A'' ''A'' 1 (snd (NFT_transfer_from ''B'' ''A'' ''A'' 1 delegated))
       = (Raise (Exception ''NFT: transfer caller is not owner nor approved''),
          snd (NFT_transfer_from ''B'' ''A'' ''A'' 1 delegated))
   \<and> fst (NFT_transfer_from ''A'' ''A'' ''A'' 1
             (snd (NFT_transfer_from ''B'' ''A'' ''A'' 1 delegated))) = Return ()"
proof -
  have h: "NFT_transfer_from ''B'' ''A'' ''C'' 1 delegated = (Return (), handed_over)"
    by (simp add: nft_eval)
  have ne: "''A'' \<noteq> ''C''"
    by simp
  have pre: "dict_get (nft_balances delegated) ''A'' 0 = 1"
    "dict_get (nft_balances delegated) ''C'' 0 = 0"
    by (simp_all add: dict_get_def)
  have no: "NFT_transfer_from ''B'' ''A'' ''C'' 1 handed_over
              \<noteq> (Raise (Exception ''NFT: transfer from incorrect owner''), handed_over)"
    by (simp add: nft_eval)
  from nft_transfer_from_effect [of "''B''" "''A''" "''C''" 1 delegated handed_over "''B''"]
    h ne pre no
  have first: "NFT_get_approved handed_over 1 = Return ''''
     \<and> map_of (nft_owners handed_over) 1 = Some ''C''
     \<and> dict_get (nft_balances handed_over) ''A'' 0 = 0
     \<and> dict_get (nft_balances handed_over) ''C'' 0 = 1
     \<and> NFT_transfer_from ''B'' ''A'' ''C'' 1 handed_over
       = (Raise (Exception ''NFT: transfer caller is not owner nor approved''), handed_over)"
    by simp
  have h2: "NFT_transfer_from ''B'' ''A'' ''A'' 1 delegated
       = (Return (), snd (NFT_transfer_from ''B'' ''A'' ''A'' 1 delegated))"
    by (simp add: nft_eval)
  have stranger: "''B'' \<noteq> ''A''" "''B'' \<noteq> ''''"
    "\<not> NFT_is_approved_for_all (snd (NFT_transfer_from ''B'' ''A'' ''A'' 1 delegated)) ''A'' ''B''"
    by (simp_all add: nft_eval)
  have no2: "NFT_transfer_from ''B'' ''A'' ''A'' 1
               (snd (NFT_transfer_from ''B'' ''A'' ''A'' 1 delegated))
       \<noteq> (Raise (Exception ''NFT: transfer from incorrect owner''),
          snd (NFT_transfer_from ''B'' ''A'' ''A'' 1 delegated))"
    by (simp add: nft_eval)
  from nft_transfer_from_effect
         [of "''B''" "''A''" "''A''" 1 delegated
             "snd (NFT_transfer_from ''B'' ''A'' ''A'' 1 delegated)" "''B''"]
    h2 pre stranger no2
  have second:
    "dict_get (nft_balances (snd (NFT_transfer_from ''B'' ''A'' ''A'' 1 delegated))) ''A'' 0 = 1
     \<and> NFT_transfer_from ''B'' ''A'' ''A'' 1
         (snd (NFT_transfer_from ''B'' ''A'' ''A'' 1 delegated))
       = (Raise (Exception ''NFT: transfer caller is not owner nor approved''),
          snd (NFT_transfer_from ''B'' ''A'' ''A'' 1 delegated))"
    by simp
  from nft_transfer_from_effect
         [of "''B''" "''A''" "''A''" 1 delegated
             "snd (NFT_transfer_from ''B'' ''A'' ''A'' 1 delegated)" "''A''"] h2
  have third: "fst (NFT_transfer_from ''A'' ''A'' ''A'' 1
             (snd (NFT_transfer_from ''B'' ''A'' ''A'' 1 delegated))) = Return ()"
    by simp
  from h first h2 second third show ?thesis
    by blast
qed

section \<open>Ownable: renounced ownership\<close>

lemma only_owner_unowned:
  "ownable_owner s = ZERO_ADDRESS \<Longrightarrow> sender \<noteq> ZERO_ADDRESS \<Longrightarrow>
   Ownable_only_owner sender s = Raise (Exception ''Ownable: caller is not the owner'')"
  by (simp add: Ownable_only_owner_def)

lemma ownable_exec_unowned:
  "ownable_owner s = ZERO_ADDRESS \<Longrightarrow> caller_of c \<noteq> ZERO_ADDRESS \<Longrightarrow>
   ownable_exec c s = (Raise (Exception ''Ownable: caller is not the owner''), s)"
  by (cases c)
    (simp_all add: Ownable_transfer_ownership_def Ownable_renounce_ownership_def
      only_owner_unowned)

lemma ownable_trace_unowned:
  "ownable_owner s = ZERO_ADDRESS \<Longrightarrow> \<forall>c\<in>set cs. caller_of c \<noteq> ZERO_ADDRESS \<Longrightarrow>
   ownable_trace cs s =
     (replicate (length cs) (Raise (Exception ''Ownable: caller is not the owner'')), s)"
  by (induction cs) (simp_all add: ownable_exec_unowned)

lemma renounce_owner:
  "Ownable_renounce_ownership sender s = (Return (), s') \<Longrightarrow> ownable_owner s' = ZERO_ADDRESS"
  by (auto simp: Ownable_renounce_ownership_def Ownable_event_def Let_def split: result.splits)

lemmas ownable_eval =
  Ownable_init_mixin_def Ownable_only_owner_def Ownable_transfer_ownership_def
  Ownable_renounce_ownership_def Ownable_event_def Let_def

text \<open>
  C8, as stated, says that after a \<^verbatim>\<open>renounce_ownership()\<close> that returns the owner stays
  the zero address in every later state, \<^verbatim>\<open>transfer_ownership\<close> raising. It does not
  when \<^verbatim>\<open>msg_sender()\<close> is the zero address: \<^verbatim>\<open>only_owner()\<close> compares the caller with
  the owner and nothing else, so after \<open>D\<close> has renounced, \<^verbatim>\<open>transfer_ownership("M")\<close>
  called by the zero address returns, the owner is \<open>M\<close>, and \<^verbatim>\<open>only_owner()\<close> called by
  \<open>M\<close> returns.
\<close>

theorem renounced_ownership_zero_caller_counterexample:
  "Ownable_renounce_ownership ''D'' (Ownable_init_mixin ''D'')
     = (Return (), snd (Ownable_renounce_ownership ''D'' (Ownable_init_mixin ''D'')))
   \<and> ownable_owner (snd (Ownable_renounce_ownership ''D'' (Ownable_init_mixin ''D'')))
       = ZERO_ADDRESS
   \<and> fst (Ownable_transfer_ownership ZERO_ADDRESS ''M''
             (snd (Ownable_renounce_ownership ''D'' (Ownable_init_mixin ''D'')))) = Return ()
   \<and> ownable_owner
        (snd (Ownable_transfer_ownership ZERO_ADDRESS ''M''
                (snd (Ownable_renounce_ownership ''D'' (Ownable_init_mixin ''D''))))) = ''M''
   \<and> Ownable_only_owner ''M''
        (snd (Ownable_transfer_ownership ZERO_ADDRESS ''M''
                (snd (Ownable_renounce_ownership ''D'' (Ownable_init_mixin ''D''))))) = Return ()"
  by (simp add: ownable_eval)

text \<open>
  C8, amended. After a \<^verbatim>\<open>renounce_ownership()\<close> that returns, the owner is the zero
  address. Every later call of \<^verbatim>\<open>transfer_ownership\<close>, of \<^verbatim>\<open>renounce_ownership\<close> or of a
  function gated by \<^verbatim>\<open>only_owner()\<close>, made by a caller other than the zero address,
  raises "caller is not the owner" and leaves the state as it is, so the owner stays
  the zero address through any sequence of calls none of which is made by the zero
  address.
\<close>

theorem renounced_ownership_is_permanent:
  assumes "Ownable_renounce_ownership sender s = (Return (), s')"
    and "\<forall>c\<in>set cs. caller_of c \<noteq> ZERO_ADDRESS"
  shows "ownable_owner s' = ZERO_ADDRESS
         \<and> ownable_trace cs s' =
             (replicate (length cs) (Raise (Exception ''Ownable: caller is not the owner'')), s')"
  using ownable_trace_unowned [OF renounce_owner [OF assms(1)] assms(2)]
    renounce_owner [OF assms(1)]
  by simp

theorem renounced_ownership_is_permanent_witness:
  "Ownable_transfer_ownership ''D'' ''E'' (Ownable_init_mixin ''D'')
     = (Return (), snd (Ownable_transfer_ownership ''D'' ''E'' (Ownable_init_mixin ''D'')))
   \<and> Ownable_renounce_ownership ''E''
        (snd (Ownable_transfer_ownership ''D'' ''E'' (Ownable_init_mixin ''D'')))
     = (Return (),
        snd (Ownable_renounce_ownership ''E''
               (snd (Ownable_transfer_ownership ''D'' ''E'' (Ownable_init_mixin ''D'')))))
   \<and> ownable_owner
        (snd (Ownable_renounce_ownership ''E''
               (snd (Ownable_transfer_ownership ''D'' ''E'' (Ownable_init_mixin ''D'')))))
     = ZERO_ADDRESS
   \<and> fst (ownable_trace
             [OwnerGated ''E'', TransferOwnership ''E'' ''D'', RenounceOwnership ''D'',
              OwnerGated ''D'']
             (snd (Ownable_renounce_ownership ''E''
                     (snd (Ownable_transfer_ownership ''D'' ''E'' (Ownable_init_mixin ''D''))))))
     = [Raise (Exception ''Ownable: caller is not the owner''),
        Raise (Exception ''Ownable: caller is not the owner''),
        Raise (Exception ''Ownable: caller is not the owner''),
        Raise (Exception ''Ownable: caller is not the owner'')]"
proof -
  have t: "Ownable_transfer_ownership ''D'' ''E'' (Ownable_init_mixin ''D'')
     = (Return (), snd (Ownable_transfer_ownership ''D'' ''E'' (Ownable_init_mixin ''D'')))"
    by (simp add: ownable_eval)
  have r: "Ownable_renounce_ownership ''E''
        (snd (Ownable_transfer_ownership ''D'' ''E'' (Ownable_init_mixin ''D'')))
     = (Return (),
        snd (Ownable_renounce_ownership ''E''
               (snd (Ownable_transfer_ownership ''D'' ''E'' (Ownable_init_mixin ''D'')))))"
    by (simp add: ownable_eval)
  have c: "\<forall>c\<in>set [OwnerGated ''E'', TransferOwnership ''E'' ''D'', RenounceOwnership ''D'',
                     OwnerGated ''D'']. caller_of c \<noteq> ZERO_ADDRESS"
    by simp
  from renounced_ownership_is_permanent [OF r c] t r show ?thesis
    by (simp add: numeral_eq_Suc)
qed

section \<open>ReentrancyGuard: release of the guard\<close>


lemmas guard_eval =
  ReentrancyGuard_init_mixin_def nonreentrant_def reset_reentrancy_guard_def
  nonreentrant_decorator_def failing_body_def returning_body_def NOT_ENTERED_def ENTERED_def


end
